theory Spec2Isabelle
  imports Complex_Main "HOL-Library.Sublist"
begin

section \<open>Strings and the Unicode services of the standard library\<close>

text \<open>
  A Python \<^verbatim>\<open>str\<close> is a sequence of Unicode code points; it is modelled as a list of
  natural numbers, one per code point. ASCII literals of the source are written through
  \<open>u\<close>, which maps every character of an Isabelle string to its code.

  A Python float is modelled as the real number it denotes and \<^verbatim>\<open>int\<close> as \<open>int\<close>. The
  first definitions of \<^verbatim>\<open>analyze\<close> and \<^verbatim>\<open>_derive_final_label\<close> compute in exact
  arithmetic; they serve the properties that do not depend on rounding. The section on
  binary64 arithmetic gives the same functions with the rounding of every float
  operation, for the properties that do.
\<close>

type_synonym ustr = "nat list"

definition u :: "string \<Rightarrow> ustr" where
  "u s = map of_char s"

text \<open>
  \<^verbatim>\<open>sentiment.py\<close> relies on five services of the Python standard library:
  \<^verbatim>\<open>unicodedata.normalize("NFKD", s)\<close>, \<^verbatim>\<open>unicodedata.combining(ch)\<close> (read as a truth
  value), \<^verbatim>\<open>str.lower\<close>, the whitespace test behind \<^verbatim>\<open>str.split()\<close> and the class
  \<^verbatim>\<open>\w\<close> of the \<^verbatim>\<open>re\<close> module. They are not part of the repository, so the model takes
  them as a parameter; every general theorem below holds for any choice of them.
\<close>

record unicode_db =
  nfkd :: "ustr \<Rightarrow> ustr"
  combining :: "nat \<Rightarrow> bool"
  lower :: "ustr \<Rightarrow> ustr"
  isspace :: "nat \<Rightarrow> bool"
  isword :: "nat \<Rightarrow> bool"

subsection \<open>String operations of the Python core language\<close>

text \<open>\<^verbatim>\<open>pat in s\<close> on strings: \<open>pat\<close> occurs in \<open>s\<close> as a contiguous block.\<close>

fun substr :: "'a list \<Rightarrow> 'a list \<Rightarrow> bool" where
  "substr pat [] = (pat = [])"
| "substr pat (c # cs) = (prefix pat (c # cs) \<or> substr pat cs)"

text \<open>\<^verbatim>\<open>sep.join(xs)\<close>.\<close>

fun join :: "'a list \<Rightarrow> 'a list list \<Rightarrow> 'a list" where
  "join sep [] = []"
| "join sep [x] = x"
| "join sep (x # y # ys) = x @ sep @ join sep (y # ys)"

text \<open>
  The maximal runs of characters that satisfy \<open>p\<close>, left to right; \<open>cur\<close> is the run
  being read. This is \<^verbatim>\<open>re.findall\<close> for a pattern \<^verbatim>\<open>[...]+\<close>, and \<^verbatim>\<open>str.split()\<close>
  when \<open>p\<close> is "not whitespace".
\<close>

fun runs :: "('a \<Rightarrow> bool) \<Rightarrow> 'a list \<Rightarrow> 'a list \<Rightarrow> 'a list list" where
  "runs p cur [] = (if cur = [] then [] else [cur])"
| "runs p cur (c # cs) =
     (if p c then runs p (cur @ [c]) cs
      else (if cur = [] then [] else [cur]) @ runs p [] cs)"

text \<open>\<^verbatim>\<open>s.split(sep)\<close> for a one-character separator: empty pieces are kept.\<close>

fun split_on :: "'a \<Rightarrow> 'a list \<Rightarrow> 'a list \<Rightarrow> 'a list list" where
  "split_on sep cur [] = [cur]"
| "split_on sep cur (c # cs) =
     (if c = sep then cur # split_on sep [] cs else split_on sep (cur @ [c]) cs)"

section \<open>Text normalizer (\<^verbatim>\<open>sentiment.py\<close>)\<close>

definition strip_accents :: "unicode_db \<Rightarrow> ustr \<Rightarrow> ustr" where
  "strip_accents U text =
     (if text = [] then []
      else filter (\<lambda>ch. \<not> combining U ch) (nfkd U text))"

definition normalize :: "unicode_db \<Rightarrow> ustr \<Rightarrow> ustr" where
  "normalize U text =
     join (u '' '') (runs (\<lambda>c. \<not> isspace U c) [] (lower U (strip_accents U text)))"

text \<open>
  \<^verbatim>\<open>_WORD_RE\<close> is the class of \<^verbatim>\<open>\w\<close> extended by the range from U+00C0 to U+00FF,
  repeated: a word character of the library, or a code point of that range.
\<close>

definition word_char :: "unicode_db \<Rightarrow> nat \<Rightarrow> bool" where
  "word_char U c = (isword U c \<or> (192 \<le> c \<and> c \<le> 255))"

definition tokenize :: "unicode_db \<Rightarrow> ustr \<Rightarrow> ustr list" where
  "tokenize U text =
     filter (\<lambda>t. t \<noteq> []) (runs (word_char U) [] (lower U (strip_accents U text)))"

section \<open>Lexicon\<close>

record Lexicon =
  pos :: "ustr \<rightharpoonup> real"
  neg :: "ustr \<rightharpoonup> real"
  negators :: "ustr list"
  intensifiers :: "ustr \<rightharpoonup> real"
  diminishers :: "ustr \<rightharpoonup> real"

text \<open>
  The constructor of the frozen dataclass: the generated \<^verbatim>\<open>__init__\<close> stores the five
  fields. The class defines no \<^verbatim>\<open>__post_init__\<close> and no other check, so the
  construction has no failing branch; \<open>None\<close> would stand for a raised exception.
\<close>

definition Lexicon_init ::
  "(ustr \<rightharpoonup> real) \<Rightarrow> (ustr \<rightharpoonup> real) \<Rightarrow> ustr list \<Rightarrow> (ustr \<rightharpoonup> real) \<Rightarrow> (ustr \<rightharpoonup> real)
     \<Rightarrow> Lexicon option" where
  "Lexicon_init p n ngs ints dims =
     Some \<lparr>pos = p, neg = n, negators = ngs, intensifiers = ints, diminishers = dims\<rparr>"

definition small_pt_pos :: "(ustr \<times> real) list" where
  "small_pt_pos =
     [(u ''bom'', 1.0), (u ''boa'', 1.0), (u ''otimo'', 1.5), (u ''otima'', 1.5),
      (u ''excelente'', 2.0), (u ''parabens'', 1.5), (u ''apoiar'', 1.0), (u ''apoio'', 1.0),
      (u ''competente'', 1.5), (u ''honesto'', 1.5), (u ''lideranca'', 1.0),
      (u ''vitoria'', 1.2), (u ''acertou'', 1.2), (u ''certo'', 0.8), (u ''tranquilo'', 0.8),
      (u ''feliz'', 1.2)]"

definition small_pt_neg :: "(ustr \<times> real) list" where
  "small_pt_neg =
     [(u ''ruim'', - 1.2), (u ''pessimo'', - 2.0), (u ''horrivel'', - 2.2),
      (u ''vergonha'', - 1.8), (u ''vergonhoso'', - 1.8), (u ''corrupto'', - 2.5),
      (u ''mentiroso'', - 2.0), (u ''incompetente'', - 2.0), (u ''fracasso'', - 1.8),
      (u ''crime'', - 1.5), (u ''criminoso'', - 2.2), (u ''canalha'', - 2.2),
      (u ''lixo'', - 2.0), (u ''odeio'', - 2.0), (u ''enganou'', - 1.5), (u ''errado'', - 1.2),
      (u ''culpa'', - 1.0), (u ''golpe'', - 1.5), (u ''vagabundo'', - 2.5),
      (u ''seboso'', - 1.6)]"

definition small_pt :: Lexicon where
  "small_pt =
     \<lparr>pos = map_of small_pt_pos,
      neg = map_of small_pt_neg,
      negators = [u ''nao'', u ''nunca'', u ''jamais'', u ''sem''],
      intensifiers = map_of [(u ''muito'', 1.5), (u ''mais'', 1.2), (u ''super'', 1.6),
                             (u ''extremamente'', 1.8), (u ''bastante'', 1.3)],
      diminishers = map_of [(u ''pouco'', 0.6), (u ''meio'', 0.7), (u ''quase'', 0.7)]\<rparr>"

section \<open>Polarity scorer\<close>

record SentimentResult =
  label :: string
  score :: real
  confidence :: real
  hits :: int
  mentioned :: bool

text \<open>
  \<^verbatim>\<open>round(x, nd)\<close>: the nearest number with \<open>nd\<close> decimal places, a tie going to the
  one whose last digit is even.
\<close>

definition py_round :: "real \<Rightarrow> nat \<Rightarrow> real" where
  "py_round x nd =
     (let y = x * 10 ^ nd; f = \<lfloor>y\<rfloor>; d = y - of_int f
      in of_int (if d < 1 / 2 then f else if 1 / 2 < d then f + 1
                 else if even f then f else f + 1) / 10 ^ nd)"

definition term_polarity :: "Lexicon \<Rightarrow> ustr \<Rightarrow> real" where
  "term_polarity lx t =
     (case pos lx t of Some v \<Rightarrow> v
      | None \<Rightarrow> (case neg lx t of Some v \<Rightarrow> v | None \<Rightarrow> 0))"

text \<open>
  The target loop of \<^verbatim>\<open>analyze\<close>: the first normalized target that is not empty and whose
  full form occurs in the joined tokens, or whose last part is a token, ends the loop
  with \<open>True\<close>.
\<close>

definition target_hit :: "ustr list \<Rightarrow> ustr \<Rightarrow> bool" where
  "target_hit toks nt =
     (let parts = filter (\<lambda>p. p \<noteq> []) (split_on 32 [] nt)
      in substr nt (join (u '' '') toks)
         \<or> list_ex (\<lambda>p. p \<in> set toks) (if parts = [] then [] else [last parts]))"

fun scan_targets :: "ustr list \<Rightarrow> ustr list \<Rightarrow> bool" where
  "scan_targets toks [] = False"
| "scan_targets toks (nt # nts) =
     (if nt = [] then scan_targets toks nts
      else if target_hit toks nt then True
      else scan_targets toks nts)"

definition is_mentioned :: "unicode_db \<Rightarrow> ustr list \<Rightarrow> ustr list option \<Rightarrow> bool" where
  "is_mentioned U toks target_names =
     (case target_names of
        None \<Rightarrow> False
      | Some names \<Rightarrow>
          if names = [] then False
          else scan_targets toks (map (normalize U) (filter (\<lambda>n. n \<noteq> []) names)))"

definition window :: nat where
  "window = 3"

definition clause_breaks :: "ustr list" where
  "clause_breaks =
     [u ''mas'', u ''porem'', u ''por'' @ [233] @ u ''m'', u ''so'', u ''s'' @ [243]]"

text \<open>
  The backward \<^verbatim>\<open>while\<close> loop: \<open>j\<close> is the index being read, \<open>steps\<close> the number of
  tokens already passed; the result is the final value of \<^verbatim>\<open>negated\<close>.
\<close>

function negation_scan :: "Lexicon \<Rightarrow> ustr list \<Rightarrow> int \<Rightarrow> nat \<Rightarrow> bool" where
  "negation_scan lx toks j steps =
     (if 0 \<le> j \<and> steps < window then
        if toks ! nat j \<in> set (negators lx) then True
        else if toks ! nat j \<in> set clause_breaks then False
        else negation_scan lx toks (j - 1) (steps + 1)
      else False)"
  by pat_completeness auto
termination
  by (relation "measure (\<lambda>(lx, toks, j, steps). window - steps)") auto

declare negation_scan.simps [simp del]

text \<open>
  One pass of the body of the \<^verbatim>\<open>for\<close> loop at index \<open>i\<close>: \<open>None\<close> is the
  \<^verbatim>\<open>continue\<close> of a token without polarity, \<open>Some c\<close> the amount added to
  \<^verbatim>\<open>score_sum\<close>.
\<close>

definition multiplier :: "Lexicon \<Rightarrow> ustr list \<Rightarrow> nat \<Rightarrow> real" where
  "multiplier lx toks i =
     (let prev = (if 1 \<le> i then toks ! (i - 1) else []);
          m1 = (case intensifiers lx prev of Some v \<Rightarrow> 1 * v | None \<Rightarrow> 1)
      in (case diminishers lx prev of Some v \<Rightarrow> m1 * v | None \<Rightarrow> m1))"

definition contribution :: "Lexicon \<Rightarrow> ustr list \<Rightarrow> nat \<Rightarrow> real option" where
  "contribution lx toks i =
     (let pol = term_polarity lx (toks ! i)
      in if pol = 0 then None
         else let mult = multiplier lx toks i;
                  negated = negation_scan lx toks (int i - 1) 0;
                  pol' = (if negated then pol * (- 1) else pol)
              in Some (pol' * mult))"

definition loop_body :: "Lexicon \<Rightarrow> ustr list \<Rightarrow> real \<times> int \<Rightarrow> nat \<Rightarrow> real \<times> int" where
  "loop_body lx toks st i =
     (case contribution lx toks i of
        None \<Rightarrow> st
      | Some c \<Rightarrow> (fst st + c, snd st + 1))"

definition score_loop :: "Lexicon \<Rightarrow> ustr list \<Rightarrow> real \<times> int" where
  "score_loop lx toks = foldl (loop_body lx toks) (0, 0) [0..<length toks]"

definition label_of :: "real \<Rightarrow> string" where
  "label_of avg =
     (if avg > 0.2 then ''positivo'' else if avg < - 0.2 then ''negativo'' else ''neutro'')"

definition analyze :: "unicode_db \<Rightarrow> Lexicon \<Rightarrow> ustr \<Rightarrow> ustr list option \<Rightarrow> SentimentResult" where
  "analyze U lx text target_names =
     (let toks = tokenize U text
      in if toks = [] then
           \<lparr>label = ''neutro'', score = 0, confidence = 0.2, hits = 0, mentioned = False\<rparr>
         else
           let ment = is_mentioned U toks target_names;
               (score_sum, n) = score_loop lx toks
           in if n = 0 then
                \<lparr>label = ''neutro'', score = 0,
                 confidence = 0.3 + (if ment then 0.2 else 0), hits = 0, mentioned = ment\<rparr>
              else
                let avg = score_sum / of_int n;
                    conf = min 1 (0.5 + min 0.5 \<bar>avg\<bar>);
                    conf' = (if ment then min 1 (conf + 0.15) else conf)
                in \<lparr>label = label_of avg, score = py_round avg 4,
                    confidence = py_round conf' 3, hits = n, mentioned = ment\<rparr>)"

section \<open>Reference and stance detectors (\<^verbatim>\<open>sentiment_report.py\<close>)\<close>

definition disagree :: "ustr list" where
  "disagree =
     map u [''discordo'', ''nao concordo'', ''mentira'', ''e mentira'', ''isso e mentira'',
            ''fake news'', ''fake'', ''nao e verdade'', ''falso'', ''nao confere'',
            ''improcedente'', ''nao procede'', ''errado'', ''nada a ver'']"

definition agree :: "ustr list" where
  "agree =
     map u [''concordo'', ''concorda'', ''verdade'', ''e verdade'', ''isso e verdade'',
            ''confere'', ''procedente'', ''ta certo'', ''esta certo'', ''correto'',
            ''isso mesmo'', ''bem dito'']"

definition detect_news_stance :: "unicode_db \<Rightarrow> ustr \<Rightarrow> string" where
  "detect_news_stance U text =
     (let t = normalize U text
      in if list_ex (\<lambda>pat. substr pat t) disagree then ''discorda''
         else if list_ex (\<lambda>pat. substr pat t) agree then ''concorda''
         else ''indefinido'')"

section \<open>Attribution cascade\<close>

definition derive_final_label ::
  "SentimentResult \<Rightarrow> SentimentResult option \<Rightarrow> bool \<Rightarrow> bool \<Rightarrow> string
     \<Rightarrow> string \<times> real \<times> string" where
  "derive_final_label comment_res article_res ment article_ref stance =
     (if ment then (label comment_res, confidence comment_res, ''comentario_direto'')
      else if \<not> article_ref then
        (''neutro'', min 0.5 (max 0.25 (confidence comment_res * 0.5)), ''indefinido'')
      else
        (case article_res of
           Some ar \<Rightarrow>
             if 0 < hits ar \<and> label ar \<in> set [''positivo'', ''negativo''] then
               if stance \<in> set [''concorda'', ''discorda''] then
                 (let final_label =
                        (if stance = ''concorda'' then label ar
                         else if label ar = ''positivo'' then ''negativo'' else ''positivo'');
                      final_conf = min 1 (0.6 + 0.4 * confidence ar)
                  in (final_label, py_round final_conf 3, ''alinhamento_noticia_stance''))
               else if 0 < hits comment_res
                       \<and> label comment_res \<in> set [''positivo'', ''negativo''] then
                 (let final_label =
                        (if label ar = ''positivo'' then label comment_res
                         else if label comment_res = ''negativo'' then ''positivo''
                         else ''negativo'');
                      final_conf = min 1 (0.5 + (confidence ar + confidence comment_res) / 2)
                  in (final_label, py_round final_conf 3, ''alinhamento_noticia''))
               else
                 (''neutro'', min 0.5 (max 0.25 (confidence comment_res * 0.5)), ''indefinido'')
             else
               (''neutro'', min 0.5 (max 0.25 (confidence comment_res * 0.5)), ''indefinido'')
         | None \<Rightarrow>
             (''neutro'', min 0.5 (max 0.25 (confidence comment_res * 0.5)), ''indefinido'')))"

section \<open>The Unicode services on Latin-1 text\<close>

text \<open>
  A concrete \<open>unicode_db\<close> for running the examples. On strings whose code points are
  all below 256 it gives what Python's \<^verbatim>\<open>unicodedata\<close>, \<^verbatim>\<open>str\<close> and \<^verbatim>\<open>re\<close> give (Unicode
  character database: compatibility decompositions of U+00A0 to U+00FF, the combining
  marks U+0300 to U+036F, simple lower-casing, white space and word characters); on
  other code points it is merely some total function.
\<close>

definition latin1_decomp :: "(nat \<times> nat list) list" where
  "latin1_decomp =
     [(160, [32]), (168, [32, 776]), (170, [97]), (175, [32, 772]), (178, [50]),
      (179, [51]), (180, [32, 769]), (181, [956]), (184, [32, 807]), (185, [49]),
      (186, [111]), (188, [49, 8260, 52]), (189, [49, 8260, 50]), (190, [51, 8260, 52]),
      (192, [65, 768]), (193, [65, 769]), (194, [65, 770]), (195, [65, 771]),
      (196, [65, 776]), (197, [65, 778]), (199, [67, 807]), (200, [69, 768]),
      (201, [69, 769]), (202, [69, 770]), (203, [69, 776]), (204, [73, 768]),
      (205, [73, 769]), (206, [73, 770]), (207, [73, 776]), (209, [78, 771]),
      (210, [79, 768]), (211, [79, 769]), (212, [79, 770]), (213, [79, 771]),
      (214, [79, 776]), (217, [85, 768]), (218, [85, 769]), (219, [85, 770]),
      (220, [85, 776]), (221, [89, 769]), (224, [97, 768]), (225, [97, 769]),
      (226, [97, 770]), (227, [97, 771]), (228, [97, 776]), (229, [97, 778]),
      (231, [99, 807]), (232, [101, 768]), (233, [101, 769]), (234, [101, 770]),
      (235, [101, 776]), (236, [105, 768]), (237, [105, 769]), (238, [105, 770]),
      (239, [105, 776]), (241, [110, 771]), (242, [111, 768]), (243, [111, 769]),
      (244, [111, 770]), (245, [111, 771]), (246, [111, 776]), (249, [117, 768]),
      (250, [117, 769]), (251, [117, 770]), (252, [117, 776]), (253, [121, 769]),
      (255, [121, 776])]"

definition latin1_nfkd :: "ustr \<Rightarrow> ustr" where
  "latin1_nfkd s =
     concat (map (\<lambda>c. case map_of latin1_decomp c of Some d \<Rightarrow> d | None \<Rightarrow> [c]) s)"

definition latin1_combining :: "nat \<Rightarrow> bool" where
  "latin1_combining c = (768 \<le> c \<and> c \<le> 879 \<and> c \<noteq> 847)"

definition latin1_lower :: "ustr \<Rightarrow> ustr" where
  "latin1_lower s =
     map (\<lambda>c. if (65 \<le> c \<and> c \<le> 90) \<or> (192 \<le> c \<and> c \<le> 222 \<and> c \<noteq> 215) then c + 32 else c) s"

definition latin1_isspace :: "nat \<Rightarrow> bool" where
  "latin1_isspace c = (c \<in> set [9, 10, 11, 12, 13, 28, 29, 30, 31, 32, 133, 160])"

definition latin1_isword :: "nat \<Rightarrow> bool" where
  "latin1_isword c =
     ((48 \<le> c \<and> c \<le> 57) \<or> (65 \<le> c \<and> c \<le> 90) \<or> c = 95 \<or> (97 \<le> c \<and> c \<le> 122)
      \<or> c \<in> set [170, 178, 179, 181, 185, 186, 188, 189, 190]
      \<or> (192 \<le> c \<and> c \<le> 255 \<and> c \<noteq> 215 \<and> c \<noteq> 247) \<or> c = 956)"

definition latin1 :: unicode_db where
  "latin1 =
     \<lparr>nfkd = latin1_nfkd, combining = latin1_combining, lower = latin1_lower,
      isspace = latin1_isspace, isword = latin1_isword\<rparr>"

section \<open>The scorer with its exceptions made explicit\<close>

text \<open>
  \<^verbatim>\<open>analyze\<close> once more, with every operation that can raise in Python returning a sum:
  an index read of a list (\<^verbatim>\<open>IndexError\<close>; a negative index counts from the end), a
  subscript of a dict (\<^verbatim>\<open>KeyError\<close>) and a division (\<^verbatim>\<open>ZeroDivisionError\<close>). The token
  \<^verbatim>\<open>t\<close> of \<^verbatim>\<open>enumerate(toks)\<close> is not an index read.
\<close>

datatype py_error = ZeroDivisionError | KeyError | IndexError

definition getitem :: "'a list \<Rightarrow> int \<Rightarrow> py_error + 'a" where
  "getitem xs i =
     (if 0 \<le> i \<and> i < int (length xs) then Inr (xs ! nat i)
      else if i < 0 \<and> - int (length xs) \<le> i then Inr (xs ! nat (int (length xs) + i))
      else Inl IndexError)"

definition subscript :: "('k \<rightharpoonup> 'v) \<Rightarrow> 'k \<Rightarrow> py_error + 'v" where
  "subscript m k = (if k \<in> dom m then Inr (the (m k)) else Inl KeyError)"

definition truediv :: "real \<Rightarrow> int \<Rightarrow> py_error + real" where
  "truediv a b = (if b \<noteq> 0 then Inr (a / of_int b) else Inl ZeroDivisionError)"

definition then_do :: "py_error + 'a \<Rightarrow> ('a \<Rightarrow> py_error + 'b) \<Rightarrow> py_error + 'b" where
  "then_do r f = (case r of Inl e \<Rightarrow> Inl e | Inr v \<Rightarrow> f v)"

definition term_polarity_chk :: "Lexicon \<Rightarrow> ustr \<Rightarrow> py_error + real" where
  "term_polarity_chk lx t =
     (if t \<in> dom (pos lx) then subscript (pos lx) t
      else if t \<in> dom (neg lx) then subscript (neg lx) t
      else Inr 0)"

function negation_scan_chk :: "Lexicon \<Rightarrow> ustr list \<Rightarrow> int \<Rightarrow> nat \<Rightarrow> py_error + bool" where
  "negation_scan_chk lx toks j steps =
     (if 0 \<le> j \<and> steps < window then
        then_do (getitem toks j) (\<lambda>tj.
          if tj \<in> set (negators lx) then Inr True
          else if tj \<in> set clause_breaks then Inr False
          else negation_scan_chk lx toks (j - 1) (steps + 1))
      else Inr False)"
  by pat_completeness auto
termination
  by (relation "measure (\<lambda>(lx, toks, j, steps). window - steps)") auto

declare negation_scan_chk.simps [simp del]

definition multiplier_chk :: "Lexicon \<Rightarrow> ustr list \<Rightarrow> nat \<Rightarrow> py_error + real" where
  "multiplier_chk lx toks i =
     then_do (if 0 \<le> int i - 1 then getitem toks (int i - 1) else Inr []) (\<lambda>prev.
     then_do (if prev \<in> dom (intensifiers lx)
              then then_do (subscript (intensifiers lx) prev) (\<lambda>v. Inr (1 * v))
              else Inr 1) (\<lambda>m1.
     if prev \<in> dom (diminishers lx)
     then then_do (subscript (diminishers lx) prev) (\<lambda>v. Inr (m1 * v))
     else Inr m1))"

definition contribution_chk :: "Lexicon \<Rightarrow> ustr list \<Rightarrow> nat \<Rightarrow> py_error + real option" where
  "contribution_chk lx toks i =
     then_do (term_polarity_chk lx (toks ! i)) (\<lambda>pol.
       if pol = 0 then Inr None
       else
         then_do (multiplier_chk lx toks i) (\<lambda>mult.
         then_do (negation_scan_chk lx toks (int i - 1) 0) (\<lambda>negated.
           Inr (Some ((if negated then pol * (- 1) else pol) * mult)))))"

definition loop_body_chk ::
  "Lexicon \<Rightarrow> ustr list \<Rightarrow> py_error + real \<times> int \<Rightarrow> nat \<Rightarrow> py_error + real \<times> int" where
  "loop_body_chk lx toks r i =
     then_do r (\<lambda>st.
     then_do (contribution_chk lx toks i) (\<lambda>c.
       case c of None \<Rightarrow> Inr st | Some c \<Rightarrow> Inr (fst st + c, snd st + 1)))"

definition score_loop_chk :: "Lexicon \<Rightarrow> ustr list \<Rightarrow> py_error + real \<times> int" where
  "score_loop_chk lx toks = foldl (loop_body_chk lx toks) (Inr (0, 0)) [0..<length toks]"

definition analyze_chk ::
  "unicode_db \<Rightarrow> Lexicon \<Rightarrow> ustr \<Rightarrow> ustr list option \<Rightarrow> py_error + SentimentResult" where
  "analyze_chk U lx text target_names =
     (let toks = tokenize U text
      in if toks = [] then
           Inr \<lparr>label = ''neutro'', score = 0, confidence = 0.2, hits = 0, mentioned = False\<rparr>
         else
           let ment = is_mentioned U toks target_names
           in then_do (score_loop_chk lx toks) (\<lambda>(score_sum, n).
                if n = 0 then
                  Inr \<lparr>label = ''neutro'', score = 0,
                       confidence = 0.3 + (if ment then 0.2 else 0), hits = 0,
                       mentioned = ment\<rparr>
                else
                  then_do (truediv score_sum n) (\<lambda>avg.
                    let conf = min 1 (0.5 + min 0.5 \<bar>avg\<bar>);
                        conf' = (if ment then min 1 (conf + 0.15) else conf)
                    in Inr \<lparr>label = label_of avg, score = py_round avg 4,
                            confidence = py_round conf' 3, hits = n, mentioned = ment\<rparr>)))"

section \<open>The core in binary64 arithmetic\<close>

text \<open>
  A Python float is an IEEE 754 binary64 number. \<open>fl64\<close> rounds a real number to the
  nearest such number, a tie going to the even significand: 53 significant bits, and the
  fixed step \<open>2 ^ -1074\<close> in the subnormal range. Results of magnitude \<open>2 ^ 1024\<close> or
  more, which Python gives as infinity, and NaN are not covered.

  The definitions of this section repeat the arithmetic of \<^verbatim>\<open>_derive_final_label\<close> and
  \<^verbatim>\<open>analyze\<close> with a rounding function \<open>fl\<close> applied wherever Python rounds: at a decimal
  literal that is not a binary fraction, and at the result of every \<^verbatim>\<open>+\<close>, \<^verbatim>\<open>*\<close>, \<^verbatim>\<open>/\<close>
  and \<^verbatim>\<open>round\<close>. Negation, \<^verbatim>\<open>abs\<close>, \<^verbatim>\<open>min\<close>, \<^verbatim>\<open>max\<close> and the comparisons are exact.
  The values a Lexicon holds are floats: \<open>as_floats fl lx\<close> is \<open>lx\<close> with its literals
  rounded.
\<close>

definition round_half_even :: "real \<Rightarrow> int" where
  "round_half_even y =
     (let f = \<lfloor>y\<rfloor>; d = y - of_int f
      in if d < 1 / 2 then f else if 1 / 2 < d then f + 1
         else if even f then f else f + 1)"

fun doublings :: "nat \<Rightarrow> real \<Rightarrow> nat" where
  "doublings 0 a = 0"
| "doublings (Suc fuel) a = (if a < 2 ^ 52 then Suc (doublings fuel (2 * a)) else 0)"

fun halvings :: "nat \<Rightarrow> real \<Rightarrow> nat" where
  "halvings 0 a = 0"
| "halvings (Suc fuel) a = (if 2 ^ 53 \<le> a then Suc (halvings fuel (a / 2)) else 0)"

definition fl64 :: "real \<Rightarrow> real" where
  "fl64 x =
     (if 2 ^ 53 \<le> \<bar>x\<bar> then
        (let k = halvings 971 \<bar>x\<bar> in of_int (round_half_even (x / 2 ^ k)) * 2 ^ k)
      else
        (let k = doublings 1074 \<bar>x\<bar> in of_int (round_half_even (x * 2 ^ k)) / 2 ^ k))"

definition derive_final_label_fp ::
  "(real \<Rightarrow> real) \<Rightarrow> SentimentResult \<Rightarrow> SentimentResult option \<Rightarrow> bool \<Rightarrow> bool \<Rightarrow> string
     \<Rightarrow> string \<times> real \<times> string" where
  "derive_final_label_fp fl comment_res article_res ment article_ref stance =
     (if ment then (label comment_res, confidence comment_res, ''comentario_direto'')
      else if \<not> article_ref then
        (''neutro'', min 0.5 (max 0.25 (fl (confidence comment_res * 0.5))), ''indefinido'')
      else
        (case article_res of
           Some ar \<Rightarrow>
             if 0 < hits ar \<and> label ar \<in> set [''positivo'', ''negativo''] then
               if stance \<in> set [''concorda'', ''discorda''] then
                 (let final_label =
                        (if stance = ''concorda'' then label ar
                         else if label ar = ''positivo'' then ''negativo'' else ''positivo'');
                      final_conf = min 1 (fl (fl 0.6 + fl (fl 0.4 * confidence ar)))
                  in (final_label, fl (py_round final_conf 3), ''alinhamento_noticia_stance''))
               else if 0 < hits comment_res
                       \<and> label comment_res \<in> set [''positivo'', ''negativo''] then
                 (let final_label =
                        (if label ar = ''positivo'' then label comment_res
                         else if label comment_res = ''negativo'' then ''positivo''
                         else ''negativo'');
                      final_conf =
                        min 1 (fl (0.5 + fl (fl (confidence ar + confidence comment_res) / 2)))
                  in (final_label, fl (py_round final_conf 3), ''alinhamento_noticia''))
               else
                 (''neutro'', min 0.5 (max 0.25 (fl (confidence comment_res * 0.5))),
                  ''indefinido'')
             else
               (''neutro'', min 0.5 (max 0.25 (fl (confidence comment_res * 0.5))),
                ''indefinido'')
         | None \<Rightarrow>
             (''neutro'', min 0.5 (max 0.25 (fl (confidence comment_res * 0.5))),
              ''indefinido'')))"

definition as_floats :: "(real \<Rightarrow> real) \<Rightarrow> Lexicon \<Rightarrow> Lexicon" where
  "as_floats fl lx =
     \<lparr>pos = map_option fl \<circ> pos lx, neg = map_option fl \<circ> neg lx, negators = negators lx,
      intensifiers = map_option fl \<circ> intensifiers lx,
      diminishers = map_option fl \<circ> diminishers lx\<rparr>"

definition multiplier_fp :: "(real \<Rightarrow> real) \<Rightarrow> Lexicon \<Rightarrow> ustr list \<Rightarrow> nat \<Rightarrow> real" where
  "multiplier_fp fl lx toks i =
     (let prev = (if 1 \<le> i then toks ! (i - 1) else []);
          m1 = (case intensifiers lx prev of Some v \<Rightarrow> fl (1 * v) | None \<Rightarrow> 1)
      in (case diminishers lx prev of Some v \<Rightarrow> fl (m1 * v) | None \<Rightarrow> m1))"

definition contribution_fp ::
  "(real \<Rightarrow> real) \<Rightarrow> Lexicon \<Rightarrow> ustr list \<Rightarrow> nat \<Rightarrow> real option" where
  "contribution_fp fl lx toks i =
     (let pol = term_polarity lx (toks ! i)
      in if pol = 0 then None
         else let mult = multiplier_fp fl lx toks i;
                  negated = negation_scan lx toks (int i - 1) 0;
                  pol' = (if negated then fl (pol * (- 1)) else pol)
              in Some (fl (pol' * mult)))"

definition loop_body_fp ::
  "(real \<Rightarrow> real) \<Rightarrow> Lexicon \<Rightarrow> ustr list \<Rightarrow> real \<times> int \<Rightarrow> nat \<Rightarrow> real \<times> int" where
  "loop_body_fp fl lx toks st i =
     (case contribution_fp fl lx toks i of
        None \<Rightarrow> st
      | Some c \<Rightarrow> (fl (fst st + c), snd st + 1))"

definition score_loop_fp :: "(real \<Rightarrow> real) \<Rightarrow> Lexicon \<Rightarrow> ustr list \<Rightarrow> real \<times> int" where
  "score_loop_fp fl lx toks = foldl (loop_body_fp fl lx toks) (0, 0) [0..<length toks]"

definition label_of_fp :: "(real \<Rightarrow> real) \<Rightarrow> real \<Rightarrow> string" where
  "label_of_fp fl avg =
     (if avg > fl 0.2 then ''positivo'' else if avg < - fl 0.2 then ''negativo''
      else ''neutro'')"

definition analyze_fp ::
  "(real \<Rightarrow> real) \<Rightarrow> unicode_db \<Rightarrow> Lexicon \<Rightarrow> ustr \<Rightarrow> ustr list option \<Rightarrow> SentimentResult" where
  "analyze_fp fl U lx text target_names =
     (let toks = tokenize U text
      in if toks = [] then
           \<lparr>label = ''neutro'', score = 0, confidence = fl 0.2, hits = 0, mentioned = False\<rparr>
         else
           let ment = is_mentioned U toks target_names;
               (score_sum, n) = score_loop_fp fl lx toks
           in if n = 0 then
                \<lparr>label = ''neutro'', score = 0,
                 confidence = fl (fl 0.3 + (if ment then fl 0.2 else 0)), hits = 0,
                 mentioned = ment\<rparr>
              else
                let avg = fl (score_sum / of_int n);
                    conf = min 1 (fl (0.5 + min 0.5 \<bar>avg\<bar>));
                    conf' = (if ment then min 1 (fl (conf + fl 0.15)) else conf)
                in \<lparr>label = label_of_fp fl avg, score = fl (py_round avg 4),
                    confidence = fl (py_round conf' 3), hits = n, mentioned = ment\<rparr>)"

section \<open>Example inputs\<close>

text \<open>A lexicon whose two polarity mappings share the word \<^verbatim>\<open>bom\<close>.\<close>

definition overlap_lexicon :: Lexicon where
  "overlap_lexicon =
     \<lparr>pos = map_of [(u ''bom'', 1)], neg = map_of [(u ''bom'', - 1)], negators = [],
      intensifiers = Map.empty, diminishers = Map.empty\<rparr>"

text \<open>
  The comment and the article of the spec's fourth scenario, and an article result whose
  confidence has three decimal places (the one \<^verbatim>\<open>analyze\<close> gives for the text
  \<^verbatim>\<open>certo bom culpa\<close>).
\<close>

definition neutral_comment :: SentimentResult where
  "neutral_comment =
     \<lparr>label = ''neutro'', score = 0, confidence = 0.3, hits = 0, mentioned = False\<rparr>"

definition positive_article :: SentimentResult where
  "positive_article =
     \<lparr>label = ''positivo'', score = 1.0, confidence = 0.8, hits = 3, mentioned = False\<rparr>"

definition article_767 :: SentimentResult where
  "article_767 =
     \<lparr>label = ''positivo'', score = 0.2667, confidence = 0.767, hits = 3, mentioned = False\<rparr>"

definition positive_comment :: SentimentResult where
  "positive_comment =
     \<lparr>label = ''positivo'', score = 1.0, confidence = 1.0, hits = 1, mentioned = False\<rparr>"

text \<open>
  The texts of the spec's scenarios 2 and 3: \<^verbatim>\<open>nao e bom\<close> with U+00E3 (227) for its
  first \<^verbatim>\<open>a\<close> and U+00E9 (233) for \<^verbatim>\<open>e\<close>, and \<^verbatim>\<open>Joao Silva\<close> with U+00E3 for its
  \<^verbatim>\<open>a\<close>.
\<close>

definition nao_e_bom :: ustr where
  "nao_e_bom = u ''n'' @ [227] @ u ''o '' @ [233] @ u '' bom''"

definition joao_silva :: ustr where
  "joao_silva = u ''Jo'' @ [227] @ u ''o Silva''"

definition nao_concordo :: ustr where
  "nao_concordo = u ''N'' @ [227] @ u ''o concordo com a mat'' @ [233] @ u ''ria''"

text \<open>
  A text that names the target and has two polarity hits, and the text of the spec's
  first scenario, \<^verbatim>\<open>Ele e muito bom\<close> with U+00E9 for its second \<^verbatim>\<open>e\<close>.
\<close>

definition silva_text :: ustr where
  "silva_text = u ''Silva certo, culpa''"

definition ele_muito_bom :: ustr where
  "ele_muito_bom = u ''Ele '' @ [233] @ u '' muito bom''"

text \<open>
  Article results whose confidence is the float 0.8 and the float 0.76375, and two texts
  whose average polarity lies next to a threshold.
\<close>

definition article_80 :: SentimentResult where
  "article_80 =
     \<lparr>label = ''positivo'', score = 1.0, confidence = fl64 0.8, hits = 3, mentioned = False\<rparr>"

definition article_76375 :: SentimentResult where
  "article_76375 =
     \<lparr>label = ''negativo'', score = - 1.0, confidence = fl64 0.76375, hits = 2,
      mentioned = False\<rparr>"

definition feliz_seboso :: ustr where
  "feliz_seboso = u ''feliz seboso''"

definition ruim_super_bom :: ustr where
  "ruim_super_bom = u ''ruim super bom''"

section \<open>Auxiliary lemmas and the examples evaluated\<close>

lemmas latin1_defs =
  latin1_def latin1_lower_def latin1_nfkd_def latin1_decomp_def latin1_combining_def
  latin1_isword_def latin1_isspace_def word_char_def strip_accents_def u_def

lemmas small_pt_defs = small_pt_def small_pt_pos_def small_pt_neg_def u_def

lemma tokenize_empty: "tokenize latin1 [] = []"
  by (simp add: tokenize_def latin1_defs)

lemma tokenize_punct: "tokenize latin1 (u ''?! ...'') = []"
  by (simp add: tokenize_def latin1_defs)

lemma tokenize_ola: "tokenize latin1 (u ''ola'') = [u ''ola'']"
  by (simp add: tokenize_def latin1_defs)

lemma score_loop_ola: "score_loop small_pt [u ''ola''] = (0, 0)"
  by (simp add: score_loop_def loop_body_def contribution_def term_polarity_def small_pt_defs)

lemma analyze_ola:
  "analyze latin1 small_pt (u ''ola'') None =
     \<lparr>label = ''neutro'', score = 0, confidence = 0.3, hits = 0, mentioned = False\<rparr>"
  by (simp add: analyze_def tokenize_ola score_loop_ola is_mentioned_def)

lemma normalize_nao_concordo:
  "normalize latin1 nao_concordo = u ''nao concordo com a materia''"
  by (simp add: normalize_def latin1_defs nao_concordo_def)

lemma nao_concordo_disagree:
  "list_ex (\<lambda>pat. substr pat (u ''nao concordo com a materia'')) disagree"
  by (simp add: disagree_def u_def)

lemma nao_concordo_agree:
  "list_ex (\<lambda>pat. substr pat (u ''nao concordo com a materia'')) agree"
  by (simp add: agree_def u_def)

lemma tokenize_nao_e_bom: "tokenize latin1 nao_e_bom = [u ''nao'', u ''e'', u ''bom'']"
  by (simp add: tokenize_def latin1_defs nao_e_bom_def)

lemma contribution_nao_e_bom:
  "contribution small_pt [u ''nao'', u ''e'', u ''bom''] 0 = None"
  "contribution small_pt [u ''nao'', u ''e'', u ''bom''] (Suc 0) = None"
  "contribution small_pt [u ''nao'', u ''e'', u ''bom''] (Suc (Suc 0)) = Some (- 1)"
  by (simp_all add: contribution_def term_polarity_def multiplier_def small_pt_defs
      negation_scan.simps[of _ _ 1 0] negation_scan.simps[of _ _ 0 "Suc 0"] window_def
      clause_breaks_def)

lemma upt_3: "[0..<length [a, b, c]] = [0, Suc 0, Suc (Suc 0)]"
  by (simp add: upt_rec)

lemma score_loop_nao_e_bom: "score_loop small_pt [u ''nao'', u ''e'', u ''bom''] = (- 1, 1)"
  unfolding score_loop_def upt_3
  by (simp add: loop_body_def contribution_nao_e_bom)

lemma analyze_nao_e_bom:
  "analyze latin1 small_pt nao_e_bom (Some []) =
     \<lparr>label = ''negativo'', score = - 1, confidence = 1, hits = 1, mentioned = False\<rparr>"
  by (simp add: analyze_def tokenize_nao_e_bom score_loop_nao_e_bom is_mentioned_def
      label_of_def py_round_def Let_def)

lemma negation_scan_window:
  "negation_scan lx toks (int i - 1) 0 =
     (\<exists>k\<in>{1..3}. k \<le> i \<and> toks ! (i - k) \<in> set (negators lx)
         \<and> (\<forall>k'\<in>{1..<k}. toks ! (i - k') \<notin> set clause_breaks))"
proof -
  have set3: "{1..3::nat} = {1, 2, 3}" by auto
  have s1: "{1..<1::nat} = {}" "{1..<2::nat} = {1}" "{1..<3::nat} = {1, 2}" by auto
  have n1: "nat (int i - 1) = i - 1" "nat (int i - 1 - 1) = i - 2"
    "nat (int i - 1 - 1 - 1) = i - 3"
    by auto
  have k2: "\<And>k'. Suc 0 \<le> k' \<Longrightarrow> k' < 2 \<Longrightarrow> k' = Suc 0" by arith
  have k3: "\<And>k'. Suc 0 \<le> k' \<Longrightarrow> k' < 3 \<Longrightarrow> k' = Suc 0 \<or> k' = 2" by arith
  show ?thesis
    apply (subst negation_scan.simps)
    apply (subst negation_scan.simps)
    apply (subst negation_scan.simps)
    apply (subst negation_scan.simps)
    apply (simp only: set3 window_def)
    apply (auto simp: s1 n1 nat_diff_distrib dest: k2 k3)
    done
qed

lemma tokenize_silva:
  "tokenize latin1 silva_text = [u ''silva'', u ''certo'', u ''culpa'']"
  by (simp add: tokenize_def latin1_defs silva_text_def)

lemma contribution_silva:
  "contribution small_pt [u ''silva'', u ''certo'', u ''culpa''] 0 = None"
  "contribution small_pt [u ''silva'', u ''certo'', u ''culpa''] (Suc 0) = Some 0.8"
  "contribution small_pt [u ''silva'', u ''certo'', u ''culpa''] (Suc (Suc 0)) = Some (- 1)"
  by (simp_all add: contribution_def term_polarity_def multiplier_def small_pt_defs
      negation_scan.simps[of _ _ 1 0] negation_scan.simps[of _ _ 0 0]
      negation_scan.simps[of _ _ 0 "Suc 0"] negation_scan.simps[of _ _ "- 1" "Suc 0"]
      negation_scan.simps[of _ _ "- 1" "Suc (Suc 0)"] window_def clause_breaks_def)

lemma score_loop_silva:
  "score_loop small_pt [u ''silva'', u ''certo'', u ''culpa''] = (- 0.2, 2)"
  unfolding score_loop_def upt_3
  by (simp add: loop_body_def contribution_silva)

lemma normalize_joao_silva: "normalize latin1 joao_silva = u ''joao silva''"
  by (simp add: normalize_def latin1_defs joao_silva_def)

lemma parts_joao_silva:
  "filter (\<lambda>p. p \<noteq> []) (split_on 32 [] (u ''joao silva'')) = [u ''joao'', u ''silva'']"
  by (simp add: u_def)

lemma tokenize_ele_muito_bom:
  "tokenize latin1 ele_muito_bom = [u ''ele'', u ''e'', u ''muito'', u ''bom'']"
  by (simp add: tokenize_def latin1_defs ele_muito_bom_def)

lemma contribution_ele_muito_bom:
  "contribution small_pt [u ''ele'', u ''e'', u ''muito'', u ''bom''] 0 = None"
  "contribution small_pt [u ''ele'', u ''e'', u ''muito'', u ''bom''] (Suc 0) = None"
  "contribution small_pt [u ''ele'', u ''e'', u ''muito'', u ''bom''] (Suc (Suc 0)) = None"
  "contribution small_pt [u ''ele'', u ''e'', u ''muito'', u ''bom''] (Suc (Suc (Suc 0)))
     = Some 1.5"
  by (simp_all add: contribution_def term_polarity_def multiplier_def small_pt_defs
      negation_scan.simps[of _ _ 2 0] negation_scan.simps[of _ _ 1 "Suc 0"]
      negation_scan.simps[of _ _ 0 "Suc (Suc 0)"] negation_scan.simps[of _ _ "- 1" "Suc (Suc (Suc 0))"]
      window_def clause_breaks_def)

lemma upt_4: "[0..<length [a, b, c, d]] = [0, Suc 0, Suc (Suc 0), Suc (Suc (Suc 0))]"
  by (simp add: upt_rec)

lemma score_loop_ele_muito_bom:
  "score_loop small_pt [u ''ele'', u ''e'', u ''muito'', u ''bom''] = (1.5, 1)"
  unfolding score_loop_def upt_4
  by (simp add: loop_body_def contribution_ele_muito_bom)

lemma score_loop_Nil: "score_loop lx [] = (0, 0)"
  by (simp add: score_loop_def)

lemma label_of_thresholds:
  "(label_of avg = ''positivo'' \<longleftrightarrow> avg > 0.2)
   \<and> (label_of avg = ''negativo'' \<longleftrightarrow> avg < - 0.2)
   \<and> (label_of avg = ''neutro'' \<longleftrightarrow> \<not> avg > 0.2 \<and> \<not> avg < - 0.2)"
  by (auto simp: label_of_def)

lemma analyze_hits:
  assumes "score_loop lx (tokenize U text) = (s, n)" and "n \<noteq> 0"
  shows "analyze U lx text tn =
      \<lparr>label = label_of (s / of_int n), score = py_round (s / of_int n) 4,
       confidence = py_round (if is_mentioned U (tokenize U text) tn
           then min 1 (min 1 (0.5 + min 0.5 \<bar>s / of_int n\<bar>) + 0.15)
           else min 1 (0.5 + min 0.5 \<bar>s / of_int n\<bar>)) 3,
       hits = n, mentioned = is_mentioned U (tokenize U text) tn\<rparr>"
proof -
  have ne: "tokenize U text \<noteq> []"
    using assms by (auto simp: score_loop_Nil)
  show ?thesis
    using assms ne by (simp add: analyze_def Let_def)
qed

lemma py_round_mono:
  assumes "x \<le> y"
  shows "py_round x nd \<le> py_round y nd"
proof -
  define a where "a = x * 10 ^ nd"
  define b where "b = y * 10 ^ nd"
  define r where "r = (\<lambda>y::real.
      (if y - of_int \<lfloor>y\<rfloor> < 1 / 2 then \<lfloor>y\<rfloor>
       else if 1 / 2 < y - of_int \<lfloor>y\<rfloor> then \<lfloor>y\<rfloor> + 1
       else if even \<lfloor>y\<rfloor> then \<lfloor>y\<rfloor> else \<lfloor>y\<rfloor> + 1))"
  have ab: "a \<le> b" using assms by (simp add: a_def b_def)
  have fl: "\<lfloor>a\<rfloor> \<le> \<lfloor>b\<rfloor>" using ab by (rule floor_mono)
  have ra: "r a \<le> \<lfloor>a\<rfloor> + 1" by (simp add: r_def)
  have rb: "\<lfloor>b\<rfloor> \<le> r b" by (simp add: r_def)
  have "r a \<le> r b"
  proof (cases "\<lfloor>a\<rfloor> = \<lfloor>b\<rfloor>")
    case True
    then show ?thesis using ab by (auto simp: r_def)
  next
    case False
    then have "\<lfloor>a\<rfloor> + 1 \<le> \<lfloor>b\<rfloor>" using fl by simp
    then show ?thesis using ra rb by linarith
  qed
  then have "(of_int (r a) :: real) / 10 ^ nd \<le> of_int (r b) / 10 ^ nd"
    by (simp add: divide_right_mono)
  then show ?thesis
    by (simp add: py_round_def Let_def a_def b_def r_def)
qed

lemma scan_targets_hit:
  "nt \<in> set nts \<Longrightarrow> nt \<noteq> [] \<Longrightarrow> target_hit toks nt \<Longrightarrow> scan_targets toks nts"
  by (induction nts) auto

lemma surname_mentioned:
  assumes "n \<in> set names" and "n \<noteq> []"
    and "filter (\<lambda>p. p \<noteq> []) (split_on 32 [] (normalize U n)) \<noteq> []"
    and "last (filter (\<lambda>p. p \<noteq> []) (split_on 32 [] (normalize U n))) \<in> set toks"
  shows "is_mentioned U toks (Some names)"
proof -
  have ne: "normalize U n \<noteq> []"
    using assms(3) by auto
  have hit: "target_hit toks (normalize U n)"
    using assms(3,4) by (simp add: target_hit_def Let_def)
  have mem: "normalize U n \<in> set (map (normalize U) (filter (\<lambda>n. n \<noteq> []) names))"
    using assms(1,2) by simp
  have "scan_targets toks (map (normalize U) (filter (\<lambda>n. n \<noteq> []) names))"
    using mem ne hit by (rule scan_targets_hit)
  moreover have "names \<noteq> []" using assms(1) by auto
  ultimately show ?thesis by (simp add: is_mentioned_def)
qed

lemma analyze_hits_pos:
  assumes "0 < hits (analyze U lx text tn)"
  shows "snd (score_loop lx (tokenize U text)) \<noteq> 0"
  using assms by (auto simp: analyze_def Let_def split: prod.splits if_splits)

section \<open>Evaluation in binary64\<close>

lemma doublings_eq:
  "k \<le> fuel \<Longrightarrow> 2 ^ 52 \<le> a * 2 ^ k \<Longrightarrow> a * 2 ^ k < 2 ^ 53 \<Longrightarrow> doublings fuel a = k"
proof (induction fuel arbitrary: a k)
  case 0
  then show ?case by simp
next
  case (Suc fuel)
  show ?case
  proof (cases k)
    case 0
    with Suc.prems show ?thesis by simp
  next
    case (Suc k')
    have "a * 2 ^ k' * 2 < 2 ^ 52 * 2"
      using Suc.prems(3) Suc by (simp add: mult.assoc)
    then have lt: "a * 2 ^ k' < 2 ^ 52" by simp
    have "a * 1 \<le> a * 2 ^ k'"
    proof (cases "0 \<le> a")
      case True
      then show ?thesis by (intro mult_left_mono) simp_all
    next
      case False
      with Suc.prems(2) have "a * 2 ^ k < 0"
        by (simp add: mult_neg_pos)
      with Suc.prems(2) show ?thesis by simp
    qed
    with lt have a: "a < 2 ^ 52" by simp
    have "doublings fuel (2 * a) = k'"
      using Suc.prems \<open>k = Suc k'\<close> by (intro Suc.IH) (simp_all add: mult.assoc mult.commute)
    with a \<open>k = Suc k'\<close> show ?thesis by simp
  qed
qed

lemma fl64_eval:
  assumes "k \<le> 1074" and "2 ^ 52 \<le> \<bar>x\<bar> * 2 ^ k" and "\<bar>x\<bar> * 2 ^ k < 2 ^ 53"
  shows "fl64 x = of_int (round_half_even (x * 2 ^ k)) / 2 ^ k"
proof -
  have "\<bar>x\<bar> * 1 \<le> \<bar>x\<bar> * 2 ^ k"
    by (intro mult_left_mono) simp_all
  with assms(3) have "\<not> 2 ^ 53 \<le> \<bar>x\<bar>" by simp
  moreover have "doublings 1074 \<bar>x\<bar> = k"
    using assms by (rule doublings_eq)
  ultimately show ?thesis by (simp add: fl64_def)
qed

lemma fl64_0: "fl64 0 = 0"
  by (simp add: fl64_def round_half_even_def)

lemmas fl64_simps = round_half_even_def Let_def

lemma fl64_04: "fl64 0.4 = 3602879701896397 / 2 ^ 53"
  by (subst fl64_eval [of 54]) (simp_all add: fl64_simps)

lemma fl64_06: "fl64 0.6 = 5404319552844595 / 2 ^ 53"
  by (subst fl64_eval [of 53]) (simp_all add: fl64_simps)

lemma fl64_08: "fl64 0.8 = 3602879701896397 / 2 ^ 52"
  by (subst fl64_eval [of 53]) (simp_all add: fl64_simps)

lemma fl64_076375: "fl64 0.76375 = 6879248430808433 / 2 ^ 53"
  by (subst fl64_eval [of 53]) (simp_all add: fl64_simps)

lemma fl64_092: "fl64 0.92 = 8286623314361713 / 2 ^ 53"
  by (subst fl64_eval [of 53]) (simp_all add: fl64_simps)

lemma fl64_0905: "fl64 0.905 = 4075757662770299 / 2 ^ 52"
  by (subst fl64_eval [of 53]) (simp_all add: fl64_simps)

lemma stance_conf_80:
  "fl64 (py_round (min 1 (fl64 (fl64 0.6 + fl64 (fl64 0.4 * fl64 0.8)))) 3) = fl64 0.92"
proof -
  have p: "fl64 (3602879701896397 / 2 ^ 53 * (3602879701896397 / 2 ^ 52)) =
      1441151880758559 / 2 ^ 52"
    by (subst fl64_eval [of 54]) (simp_all add: fl64_simps)
  have s: "fl64 (5404319552844595 / 2 ^ 53 + 1441151880758559 / 2 ^ 52) =
      8286623314361713 / 2 ^ 53"
    by (subst fl64_eval [of 53]) (simp_all add: fl64_simps)
  have r: "py_round (min 1 (8286623314361713 / 2 ^ 53)) 3 = 0.92"
    by (simp add: py_round_def Let_def)
  show ?thesis
    by (simp only: fl64_04 fl64_06 fl64_08 p s r)
qed

lemma stance_conf_76375:
  "fl64 (py_round (min 1 (fl64 (fl64 0.6 + fl64 (fl64 0.4 * fl64 0.76375)))) 3) = fl64 0.905"
proof -
  have p: "fl64 (3602879701896397 / 2 ^ 53 * (6879248430808433 / 2 ^ 53)) =
      5503398744646747 / 2 ^ 54"
    by (subst fl64_eval [of 54]) (simp_all add: fl64_simps)
  have s: "fl64 (5404319552844595 / 2 ^ 53 + 5503398744646747 / 2 ^ 54) =
      254875591411499 / 2 ^ 48"
    by (subst fl64_eval [of 53]) (simp_all add: fl64_simps)
  have r: "py_round (min 1 (254875591411499 / 2 ^ 48)) 3 = 0.905"
    by (simp add: py_round_def Let_def)
  show ?thesis
    by (simp only: fl64_04 fl64_06 fl64_076375 p s r)
qed

lemma fl64_lit_52:
  "fl64 (6 / 5) = 5404319552844595 / 4503599627370496"
  "fl64 (- (6 / 5)) = - (5404319552844595 / 4503599627370496)"
  "fl64 (8 / 5) = 3602879701896397 / 2251799813685248"
  "fl64 (- (8 / 5)) = - (3602879701896397 / 2251799813685248)"
  by (subst fl64_eval [of 52]; simp add: fl64_simps)+

lemma fl64_lit_02:
  "fl64 (1 / 5) = 3602879701896397 / 18014398509481984"
  by (subst fl64_eval [of 55]) (simp_all add: fl64_simps)

lemma fl64_fixed:
  "fl64 (5404319552844595 / 4503599627370496) = 5404319552844595 / 4503599627370496"
  "fl64 (- (5404319552844595 / 4503599627370496)) = - (5404319552844595 / 4503599627370496)"
  "fl64 (3602879701896397 / 2251799813685248) = 3602879701896397 / 2251799813685248"
  "fl64 (- (3602879701896397 / 2251799813685248)) = - (3602879701896397 / 2251799813685248)"
  by (subst fl64_eval [of 52]; simp add: fl64_simps)+

lemma fl64_sums:
  "fl64 (- (1801439850948199 / 4503599627370496)) = - (1801439850948199 / 4503599627370496)"
  "fl64 (1801439850948199 / 4503599627370496) = 1801439850948199 / 4503599627370496"
  by (subst fl64_eval [of 54]; simp add: fl64_simps)+

lemma fl64_avgs:
  "fl64 (- (1801439850948199 / 9007199254740992)) = - (1801439850948199 / 9007199254740992)"
  "fl64 (1801439850948199 / 9007199254740992) = 1801439850948199 / 9007199254740992"
  by (subst fl64_eval [of 55]; simp add: fl64_simps)+

lemma tokenize_feliz_seboso: "tokenize latin1 feliz_seboso = [u ''feliz'', u ''seboso'']"
  by (simp add: tokenize_def latin1_defs feliz_seboso_def)

lemma tokenize_ruim_super_bom:
  "tokenize latin1 ruim_super_bom = [u ''ruim'', u ''super'', u ''bom'']"
  by (simp add: tokenize_def latin1_defs ruim_super_bom_def)

lemma fl64_1: "fl64 1 = 1"
  by (subst fl64_eval [of 52]) (simp_all add: fl64_simps)

lemmas fl64_values = fl64_lit_52 fl64_lit_02 fl64_fixed fl64_sums fl64_avgs fl64_1

lemma contribution_feliz_seboso:
  "contribution_fp fl64 (as_floats fl64 small_pt) [u ''feliz'', u ''seboso''] 0
     = Some (5404319552844595 / 4503599627370496)"
  "contribution_fp fl64 (as_floats fl64 small_pt) [u ''feliz'', u ''seboso''] (Suc 0)
     = Some (- (3602879701896397 / 2251799813685248))"
  by (simp_all add: contribution_fp_def term_polarity_def multiplier_fp_def as_floats_def
      small_pt_defs negation_scan.simps[of _ _ "- 1" 0] negation_scan.simps[of _ _ 0 0]
      negation_scan.simps[of _ _ "- 1" "Suc 0"] window_def clause_breaks_def fl64_values)

lemma upt_2: "[0..<length [a, b]] = [0, Suc 0]"
  by (simp add: upt_rec)

lemma score_loop_feliz_seboso:
  "score_loop_fp fl64 (as_floats fl64 small_pt) [u ''feliz'', u ''seboso'']
     = (- (1801439850948199 / 4503599627370496), 2)"
  unfolding score_loop_fp_def upt_2
  by (simp add: loop_body_fp_def contribution_feliz_seboso fl64_values)

lemma contribution_ruim_super_bom:
  "contribution_fp fl64 (as_floats fl64 small_pt) [u ''ruim'', u ''super'', u ''bom''] 0
     = Some (- (5404319552844595 / 4503599627370496))"
  "contribution_fp fl64 (as_floats fl64 small_pt) [u ''ruim'', u ''super'', u ''bom''] (Suc 0)
     = None"
  "contribution_fp fl64 (as_floats fl64 small_pt) [u ''ruim'', u ''super'', u ''bom'']
     (Suc (Suc 0)) = Some (3602879701896397 / 2251799813685248)"
  by (simp_all add: contribution_fp_def term_polarity_def multiplier_fp_def as_floats_def
      small_pt_defs negation_scan.simps[of _ _ "- 1" 0] negation_scan.simps[of _ _ 1 0]
      negation_scan.simps[of _ _ 0 "Suc 0"] negation_scan.simps[of _ _ "- 1" "Suc (Suc 0)"]
      window_def clause_breaks_def fl64_values)

lemma score_loop_ruim_super_bom:
  "score_loop_fp fl64 (as_floats fl64 small_pt) [u ''ruim'', u ''super'', u ''bom'']
     = (1801439850948199 / 4503599627370496, 2)"
  unfolding score_loop_fp_def upt_3
  by (simp add: loop_body_fp_def contribution_ruim_super_bom fl64_values)

lemma score_loop_fp_Nil: "score_loop_fp fl lx [] = (0, 0)"
  by (simp add: score_loop_fp_def)

lemma analyze_fp_hits:
  assumes "score_loop_fp fl lx (tokenize U text) = (s, n)" and "n \<noteq> 0"
  shows "label (analyze_fp fl U lx text tn) = label_of_fp fl (fl (s / of_int n))
     \<and> hits (analyze_fp fl U lx text tn) = n"
proof -
  have ne: "tokenize U text \<noteq> []"
    using assms by (auto simp: score_loop_fp_Nil)
  show ?thesis
    using assms ne by (simp add: analyze_fp_def Let_def)
qed

text \<open>
  Without rounding, the definitions in binary64 arithmetic are the ones in exact
  arithmetic.
\<close>

lemma derive_final_label_fp_exact:
  "derive_final_label_fp (\<lambda>x. x) comment_res article_res ment article_ref stance =
     derive_final_label comment_res article_res ment article_ref stance"
  by (simp add: derive_final_label_fp_def derive_final_label_def)

lemma multiplier_fp_exact: "multiplier_fp (\<lambda>x. x) lx toks i = multiplier lx toks i"
  by (simp add: multiplier_fp_def multiplier_def)

lemma contribution_fp_exact: "contribution_fp (\<lambda>x. x) lx toks i = contribution lx toks i"
  by (simp add: contribution_fp_def contribution_def multiplier_fp_exact Let_def)

lemma score_loop_fp_exact: "score_loop_fp (\<lambda>x. x) lx toks = score_loop lx toks"
proof -
  have "loop_body_fp (\<lambda>x. x) lx toks = loop_body lx toks"
    by (intro ext) (simp add: loop_body_fp_def loop_body_def contribution_fp_exact)
  then show ?thesis by (simp add: score_loop_fp_def score_loop_def)
qed

lemma label_of_fp_exact: "label_of_fp (\<lambda>x. x) avg = label_of avg"
  by (simp add: label_of_fp_def label_of_def)

lemma analyze_fp_exact: "analyze_fp (\<lambda>x. x) U lx text tn = analyze U lx text tn"
  by (simp add: analyze_fp_def analyze_def score_loop_fp_exact label_of_fp_exact Let_def
      split: prod.splits)

section \<open>No operation of the scorer raises\<close>

lemma term_polarity_chk_ok: "term_polarity_chk lx t = Inr (term_polarity lx t)"
  by (auto simp: term_polarity_chk_def term_polarity_def subscript_def split: option.splits)

lemma negation_scan_chk_ok:
  "j < int (length toks) \<Longrightarrow>
     negation_scan_chk lx toks j steps = Inr (negation_scan lx toks j steps)"
proof (induction lx toks j steps rule: negation_scan.induct)
  case (1 lx toks j steps)
  show ?case
  proof (cases "0 \<le> j \<and> steps < window")
    case True
    then have g: "getitem toks j = Inr (toks ! nat j)"
      using "1.prems" by (simp add: getitem_def)
    show ?thesis
    proof (cases "toks ! nat j \<in> set (negators lx) \<or> toks ! nat j \<in> set clause_breaks")
      case True
      with \<open>0 \<le> j \<and> steps < window\<close> g show ?thesis
        by (subst negation_scan_chk.simps, subst negation_scan.simps)
           (auto simp: then_do_def)
    next
      case False
      have "j - 1 < int (length toks)" using "1.prems" by simp
      then have ih: "negation_scan_chk lx toks (j - 1) (steps + 1) =
          Inr (negation_scan lx toks (j - 1) (steps + 1))"
        using "1.IH" \<open>0 \<le> j \<and> steps < window\<close> False by simp
      from \<open>0 \<le> j \<and> steps < window\<close> g False ih show ?thesis
        by (subst negation_scan_chk.simps, subst negation_scan.simps)
           (simp add: then_do_def)
    qed
  next
    case False
    then show ?thesis
      by (subst negation_scan_chk.simps, subst negation_scan.simps) auto
  qed
qed

lemma multiplier_chk_ok:
  "i < length toks \<Longrightarrow> multiplier_chk lx toks i = Inr (multiplier lx toks i)"
  by (cases i)
     (auto simp: multiplier_chk_def multiplier_def getitem_def subscript_def then_do_def
       Let_def split: option.splits)

lemma contribution_chk_ok:
  assumes "i < length toks"
  shows "contribution_chk lx toks i = Inr (contribution lx toks i)"
proof -
  have "int i - 1 < int (length toks)" using assms by simp
  then have n: "negation_scan_chk lx toks (int i - 1) 0 =
      Inr (negation_scan lx toks (int i - 1) 0)"
    by (rule negation_scan_chk_ok)
  show ?thesis
    by (simp add: contribution_chk_def contribution_def term_polarity_chk_ok
        multiplier_chk_ok [OF assms] n then_do_def Let_def)
qed

lemma foldl_loop_body_chk_ok:
  "\<forall>i\<in>set is. i < length toks \<Longrightarrow>
     foldl (loop_body_chk lx toks) (Inr st) is = Inr (foldl (loop_body lx toks) st is)"
proof (induction "is" arbitrary: st)
  case Nil
  then show ?case by simp
next
  case (Cons i "is")
  then have i: "i < length toks" by simp
  have "loop_body_chk lx toks (Inr st) i = Inr (loop_body lx toks st i)"
    by (simp add: loop_body_chk_def loop_body_def contribution_chk_ok [OF i] then_do_def
        split: option.splits)
  with Cons show ?case by simp
qed

lemma score_loop_chk_ok: "score_loop_chk lx toks = Inr (score_loop lx toks)"
  unfolding score_loop_chk_def score_loop_def
  by (rule foldl_loop_body_chk_ok) simp

lemma analyze_chk_ok: "analyze_chk U lx text tn = Inr (analyze U lx text tn)"
  by (simp add: analyze_chk_def analyze_def score_loop_chk_ok then_do_def truediv_def Let_def
      split: prod.splits)

section \<open>Properties of the attribution cascade\<close>

text \<open>
  C5: when the target is not mentioned and either the comment does not reference the
  article, or there is no article result, or neither alignment rule applies (the article
  result is not determinate, or the stance is not explicit and the comment is not
  determinate), \<^verbatim>\<open>_derive_final_label\<close> returns the label \<^verbatim>\<open>neutro\<close>, the confidence
  \<open>comment_confidence * 0.5\<close> clamped to \<open>[0.25, 0.5]\<close> and the origin \<^verbatim>\<open>indefinido\<close>; a
  missing article result gives this value, not an error.
\<close>

theorem derive_final_undetermined:
  assumes "\<not> article_ref \<or> article_res = None
     \<or> (\<exists>ar. article_res = Some ar
           \<and> (\<not> (0 < hits ar \<and> label ar \<in> {''positivo'', ''negativo''})
              \<or> (stance \<notin> {''concorda'', ''discorda''}
                  \<and> \<not> (0 < hits comment_res
                         \<and> label comment_res \<in> {''positivo'', ''negativo''}))))"
  shows "derive_final_label comment_res article_res False article_ref stance =
           (''neutro'', min 0.5 (max 0.25 (confidence comment_res * 0.5)), ''indefinido'')
         \<and> 0.25 \<le> fst (snd (derive_final_label comment_res article_res False article_ref stance))
         \<and> fst (snd (derive_final_label comment_res article_res False article_ref stance)) \<le> 0.5"
proof -
  have "derive_final_label comment_res article_res False article_ref stance =
          (''neutro'', min 0.5 (max 0.25 (confidence comment_res * 0.5)), ''indefinido'')"
    using assms unfolding derive_final_label_def by (auto split: option.splits)
  then show ?thesis by simp
qed

theorem derive_final_undetermined_witness:
  "derive_final_label positive_comment None False False ''indefinido'' =
     (''neutro'', 0.5, ''indefinido'')
   \<and> derive_final_label neutral_comment None False True ''concorda'' =
     (''neutro'', 0.25, ''indefinido'')
   \<and> derive_final_label neutral_comment (Some positive_article) False True ''indefinido'' =
     (''neutro'', 0.25, ''indefinido'')"
proof -
  have a: "derive_final_label positive_comment None False False ''indefinido'' =
      (''neutro'', 0.5, ''indefinido'')"
    using derive_final_undetermined [of False None "''indefinido''" positive_comment]
    by (simp add: positive_comment_def)
  have b: "derive_final_label neutral_comment None False True ''concorda'' =
      (''neutro'', 0.25, ''indefinido'')"
    using derive_final_undetermined [of True None "''concorda''" neutral_comment]
    by (simp add: neutral_comment_def)
  have c: "derive_final_label neutral_comment (Some positive_article) False True ''indefinido'' =
      (''neutro'', 0.25, ''indefinido'')"
    using derive_final_undetermined
      [of True "Some positive_article" "''indefinido''" neutral_comment]
    by (simp add: neutral_comment_def positive_article_def)
  from a b c show ?thesis by simp
qed

text \<open>
  C2, as stated: with the target not mentioned, a reference to the article, a determinate
  article result and the stance \<^verbatim>\<open>concorda\<close>, the final confidence would be
  \<open>min(1.0, 0.6 + 0.4 * article_confidence)\<close>. For the article confidence 0.767 the code
  returns 0.907, not 0.9068: it rounds to three decimal places.
\<close>

theorem derive_final_stance_confidence_rounded:
  "0 < hits article_767 \<and> label article_767 = ''positivo''
   \<and> fst (snd (derive_final_label neutral_comment (Some article_767) False True ''concorda''))
       = 0.907
   \<and> min 1 (0.6 + 0.4 * confidence article_767) = 0.9068
   \<and> fst (snd (derive_final_label neutral_comment (Some article_767) False True ''concorda''))
       \<noteq> min 1 (0.6 + 0.4 * confidence article_767)"
  by (simp add: derive_final_label_def article_767_def py_round_def Let_def)

text \<open>
  C2, amended: with the target not mentioned, a reference to the article, an article
  result with \<open>hits > 0\<close> and the label \<^verbatim>\<open>positivo\<close> or \<^verbatim>\<open>negativo\<close>, and the stance
  \<^verbatim>\<open>concorda\<close> or \<^verbatim>\<open>discorda\<close>: the final label is the article's label for \<^verbatim>\<open>concorda\<close>
  and the opposite label for \<^verbatim>\<open>discorda\<close>, the final confidence is
  \<open>min(1.0, 0.6 + 0.4 * article_confidence)\<close>, computed in floating point, rounded to three
  decimal places, and the origin is \<^verbatim>\<open>alinhamento_noticia_stance\<close>; with the article
  confidence 0.8 (as a double) the final confidence is the double 0.92.
\<close>

theorem derive_final_stance_alignment:
  assumes "0 < hits ar" and "label ar \<in> {''positivo'', ''negativo''}"
    and "stance \<in> {''concorda'', ''discorda''}"
  shows "derive_final_label_fp fl comment_res (Some ar) False True stance =
           (if stance = ''concorda'' then label ar
            else if label ar = ''positivo'' then ''negativo'' else ''positivo'',
            fl (py_round (min 1 (fl (fl 0.6 + fl (fl 0.4 * confidence ar)))) 3),
            ''alinhamento_noticia_stance'')
         \<and> (confidence ar = fl64 0.8 \<longrightarrow>
              fst (snd (derive_final_label_fp fl64 comment_res (Some ar) False True stance))
                = fl64 0.92)"
proof -
  have eq: "derive_final_label_fp fl comment_res (Some ar) False True stance =
           (if stance = ''concorda'' then label ar
            else if label ar = ''positivo'' then ''negativo'' else ''positivo'',
            fl (py_round (min 1 (fl (fl 0.6 + fl (fl 0.4 * confidence ar)))) 3),
            ''alinhamento_noticia_stance'')" for fl
    using assms unfolding derive_final_label_fp_def by (auto simp: Let_def)
  have "fst (snd (derive_final_label_fp fl64 comment_res (Some ar) False True stance))
      = fl64 0.92"
    if c: "confidence ar = fl64 0.8"
  proof -
    have "fst (snd (derive_final_label_fp fl64 comment_res (Some ar) False True stance)) =
        fl64 (py_round (min 1 (fl64 (fl64 0.6 + fl64 (fl64 0.4 * confidence ar)))) 3)"
      by (simp only: eq fst_conv snd_conv)
    also have "\<dots> = fl64 (py_round (min 1 (fl64 (fl64 0.6 + fl64 (fl64 0.4 * fl64 0.8)))) 3)"
      by (simp only: c)
    also have "\<dots> = fl64 0.92" by (rule stance_conf_80)
    finally show ?thesis .
  qed
  with eq show ?thesis by blast
qed

theorem derive_final_stance_alignment_witness:
  "0 < hits article_80 \<and> label article_80 \<in> {''positivo'', ''negativo''}
   \<and> confidence article_80 = fl64 0.8
   \<and> derive_final_label_fp fl64 neutral_comment (Some article_80) False True ''concorda'' =
       (''positivo'', fl64 0.92, ''alinhamento_noticia_stance'')
   \<and> 0 < hits article_76375 \<and> label article_76375 \<in> {''positivo'', ''negativo''}
   \<and> derive_final_label_fp fl64 neutral_comment (Some article_76375) False True ''discorda'' =
       (''positivo'', fl64 0.905, ''alinhamento_noticia_stance'')"
proof -
  have h: "0 < hits article_80" "label article_80 \<in> {''positivo'', ''negativo''}"
    "confidence article_80 = fl64 0.8" "label article_80 = ''positivo''"
    by (simp_all add: article_80_def)
  have g: "0 < hits article_76375" "label article_76375 \<in> {''positivo'', ''negativo''}"
    "confidence article_76375 = fl64 0.76375" "label article_76375 = ''negativo''"
    by (simp_all add: article_76375_def)
  have s: "''concorda'' \<in> {''concorda'', ''discorda''}"
    "''discorda'' \<in> {''concorda'', ''discorda''}"
    by simp_all
  have a: "derive_final_label_fp fl64 neutral_comment (Some article_80) False True ''concorda'' =
       (''positivo'', fl64 0.92, ''alinhamento_noticia_stance'')"
    using derive_final_stance_alignment [OF h(1) h(2) s(1), of fl64 neutral_comment]
    by (simp only: h(3) h(4) stance_conf_80 simp_thms if_True)
  have l: "(if ''discorda'' = ''concorda'' then label article_76375
        else if label article_76375 = ''positivo'' then ''negativo'' else ''positivo'')
      = ''positivo''"
    by (simp add: g(4))
  have b0: "derive_final_label_fp fl64 neutral_comment (Some article_76375) False True
        ''discorda'' =
      (if ''discorda'' = ''concorda'' then label article_76375
       else if label article_76375 = ''positivo'' then ''negativo'' else ''positivo'',
       fl64 (py_round (min 1 (fl64 (fl64 0.6 + fl64 (fl64 0.4 * confidence article_76375)))) 3),
       ''alinhamento_noticia_stance'')"
    using derive_final_stance_alignment [OF g(1) g(2) s(2), of fl64 neutral_comment]
    by (rule conjunct1)
  have b: "derive_final_label_fp fl64 neutral_comment (Some article_76375) False True ''discorda''
      = (''positivo'', fl64 0.905, ''alinhamento_noticia_stance'')"
    by (simp only: b0 l g(3) stance_conf_76375)
  from h(1-3) g(1,2) a b show ?thesis by simp
qed

section \<open>Properties of the lexicon\<close>

text \<open>
  C1, as stated: a Lexicon whose positive and negative mappings share a word would be
  rejected when it is constructed. The constructor accepts the mappings that share
  \<^verbatim>\<open>bom\<close>, and the Lexicon it returns holds that word in both.
\<close>

theorem Lexicon_overlap_not_rejected:
  "Lexicon_init (map_of [(u ''bom'', 1)]) (map_of [(u ''bom'', - 1)]) [] Map.empty Map.empty
     = Some overlap_lexicon
   \<and> u ''bom'' \<in> dom (pos overlap_lexicon) \<inter> dom (neg overlap_lexicon)"
  by (simp add: Lexicon_init_def overlap_lexicon_def)

text \<open>
  C1, amended: constructing a Lexicon never fails and stores the mappings as given,
  also when they share a word; the built-in lexicon \<^verbatim>\<open>small_pt\<close> has no word in both
  its positive and its negative mapping; and \<^verbatim>\<open>analyze\<close> raises no exception, whatever
  the text, the target names and the lexicon.
\<close>

theorem Lexicon_init_total:
  "Lexicon_init p n ngs ints dims =
     Some \<lparr>pos = p, neg = n, negators = ngs, intensifiers = ints, diminishers = dims\<rparr>
   \<and> dom (pos small_pt) \<inter> dom (neg small_pt) = {}
   \<and> analyze_chk U lx text tn = Inr (analyze U lx text tn)"
  by (simp add: Lexicon_init_def small_pt_def small_pt_pos_def small_pt_neg_def
      dom_map_of_conv_image_fst u_def analyze_chk_ok)

text \<open>
  C10: \<^verbatim>\<open>_term_polarity\<close> looks the term up in the positive mapping first: a term
  present in both mappings has its positive strength, a term in neither has 0.0, and the
  amount \<^verbatim>\<open>analyze\<close> adds for such a token is computed from the positive strength.
\<close>

theorem term_polarity_prefers_positive:
  "(t \<in> dom (pos lx) \<inter> dom (neg lx) \<longrightarrow> term_polarity lx t = the (pos lx t))
   \<and> (t \<notin> dom (pos lx) \<union> dom (neg lx) \<longrightarrow> term_polarity lx t = 0)
   \<and> (i < length toks \<and> toks ! i \<in> dom (pos lx) \<inter> dom (neg lx)
        \<and> the (pos lx (toks ! i)) \<noteq> 0 \<longrightarrow>
        contribution lx toks i =
          Some ((if negation_scan lx toks (int i - 1) 0 then the (pos lx (toks ! i)) * (- 1)
                 else the (pos lx (toks ! i))) * multiplier lx toks i))"
  by (auto simp: term_polarity_def contribution_def Let_def split: option.splits)

theorem term_polarity_prefers_positive_witness:
  "u ''bom'' \<in> dom (pos overlap_lexicon) \<inter> dom (neg overlap_lexicon)
   \<and> term_polarity overlap_lexicon (u ''bom'') = 1
   \<and> u ''ola'' \<notin> dom (pos overlap_lexicon) \<union> dom (neg overlap_lexicon)
   \<and> term_polarity overlap_lexicon (u ''ola'') = 0
   \<and> contribution overlap_lexicon [u ''bom''] 0 = Some 1"
proof -
  have ns: "\<not> negation_scan overlap_lexicon [u ''bom''] (int 0 - 1) 0"
    by (subst negation_scan.simps) simp
  have m: "multiplier overlap_lexicon [u ''bom''] 0 = 1"
    by (simp add: multiplier_def overlap_lexicon_def)
  show ?thesis
    using term_polarity_prefers_positive [of "u ''bom''" overlap_lexicon 0 "[u ''bom'']"]
      term_polarity_prefers_positive [of "u ''ola''" overlap_lexicon 0 "[u ''bom'']"] ns m
    by (simp add: overlap_lexicon_def u_def)
qed

section \<open>Properties of the polarity scorer\<close>

text \<open>
  C6: whatever the text and the target names, a result of \<^verbatim>\<open>analyze\<close> with
  \<open>hits = 0\<close> has \<open>score = 0.0\<close>.
\<close>

theorem analyze_zero_hits_zero_score:
  "hits (analyze U lx text tn) = 0 \<Longrightarrow> score (analyze U lx text tn) = 0"
  by (auto simp: analyze_def Let_def split: prod.splits if_splits)

theorem analyze_zero_hits_zero_score_witness:
  "hits (analyze latin1 small_pt (u ''ola'') None) = 0
   \<and> score (analyze latin1 small_pt (u ''ola'') None) = 0"
proof -
  have h: "hits (analyze latin1 small_pt (u ''ola'') None) = 0"
    by (simp add: analyze_ola)
  from h analyze_zero_hits_zero_score [OF h] show ?thesis by simp
qed

text \<open>
  C7: a text that tokenizes to no tokens is analyzed as label \<^verbatim>\<open>neutro\<close>, score 0,
  confidence 0.2, hits 0 and mentioned false, whatever target names are given; so is
  the empty text with the target \<^verbatim>\<open>Joao Silva\<close> (its \<^verbatim>\<open>a\<close> written U+00E3).
\<close>

theorem analyze_no_tokens:
  "(tokenize U text = [] \<longrightarrow>
      analyze U lx text tn =
        \<lparr>label = ''neutro'', score = 0, confidence = 0.2, hits = 0, mentioned = False\<rparr>)
   \<and> analyze latin1 small_pt [] (Some [joao_silva]) =
        \<lparr>label = ''neutro'', score = 0, confidence = 0.2, hits = 0, mentioned = False\<rparr>"
  by (simp add: analyze_def tokenize_empty)

theorem analyze_no_tokens_witness:
  "tokenize latin1 (u ''?! ...'') = []
   \<and> analyze latin1 small_pt (u ''?! ...'') (Some [joao_silva]) =
        \<lparr>label = ''neutro'', score = 0, confidence = 0.2, hits = 0, mentioned = False\<rparr>"
  using analyze_no_tokens [of latin1 "u ''?! ...''" small_pt "Some [joao_silva]"] tokenize_punct
  by simp

text \<open>
  C8: \<^verbatim>\<open>_detect_news_stance\<close> tests the disagreement phrases first: a text whose
  normalized form contains one of them gives \<^verbatim>\<open>discorda\<close>, also when it contains an
  agreement phrase; the text \<^verbatim>\<open>Nao concordo com a materia\<close> (written with U+00E3 and
  U+00E9) gives \<^verbatim>\<open>discorda\<close>, not \<^verbatim>\<open>concorda\<close>.
\<close>

theorem detect_news_stance_disagree_first:
  "(list_ex (\<lambda>pat. substr pat (normalize U text)) disagree \<longrightarrow>
      detect_news_stance U text = ''discorda'')
   \<and> detect_news_stance latin1 nao_concordo = ''discorda''
   \<and> detect_news_stance latin1 nao_concordo \<noteq> ''concorda''"
  by (simp add: detect_news_stance_def normalize_nao_concordo nao_concordo_disagree)

theorem detect_news_stance_disagree_first_witness:
  "list_ex (\<lambda>pat. substr pat (normalize latin1 nao_concordo)) disagree
   \<and> list_ex (\<lambda>pat. substr pat (normalize latin1 nao_concordo)) agree
   \<and> substr (u ''nao concordo'') (normalize latin1 nao_concordo)
   \<and> substr (u ''concordo'') (normalize latin1 nao_concordo)
   \<and> detect_news_stance latin1 nao_concordo = ''discorda''"
proof -
  have s: "substr (u ''nao concordo'') (u ''nao concordo com a materia'')"
    "substr (u ''concordo'') (u ''nao concordo com a materia'')"
    by (simp_all add: u_def)
  show ?thesis
    using detect_news_stance_disagree_first [of latin1 nao_concordo] s
    by (simp add: normalize_nao_concordo nao_concordo_disagree nao_concordo_agree)
qed

text \<open>
  C3: for a token at index \<open>i\<close> with non-zero polarity, \<^verbatim>\<open>analyze\<close> adds the polarity
  times the multiplier with the sign inverted exactly when one of the three tokens before
  \<open>i\<close> is a negator and no token between it and \<open>i\<close> is a clause break (the backward scan
  stops at a clause break, and after three tokens); analyzing \<^verbatim>\<open>nao e bom\<close> (written
  with U+00E3 and U+00E9) with no targets gives score -1.0 and label \<^verbatim>\<open>negativo\<close>.
\<close>

theorem analyze_negation_window:
  assumes "i < length toks" and "term_polarity lx (toks ! i) \<noteq> 0"
  shows "contribution lx toks i =
           Some ((if (\<exists>k\<in>{1..3}. k \<le> i \<and> toks ! (i - k) \<in> set (negators lx)
                        \<and> (\<forall>k'\<in>{1..<k}. toks ! (i - k') \<notin> set clause_breaks))
                  then - term_polarity lx (toks ! i) else term_polarity lx (toks ! i))
                 * multiplier lx toks i)
         \<and> score (analyze latin1 small_pt nao_e_bom (Some [])) = - 1
         \<and> label (analyze latin1 small_pt nao_e_bom (Some [])) = ''negativo''"
proof -
  have "contribution lx toks i =
      Some ((if negation_scan lx toks (int i - 1) 0 then - term_polarity lx (toks ! i)
             else term_polarity lx (toks ! i)) * multiplier lx toks i)"
    using assms(2) by (simp add: contribution_def Let_def)
  then show ?thesis
    by (simp only: negation_scan_window analyze_nao_e_bom SentimentResult.simps simp_thms)
qed

theorem analyze_negation_window_witness:
  "2 < length [u ''nao'', u ''e'', u ''bom'']
   \<and> term_polarity small_pt ([u ''nao'', u ''e'', u ''bom''] ! 2) = 1
   \<and> [u ''nao'', u ''e'', u ''bom''] ! (2 - 2) \<in> set (negators small_pt)
   \<and> [u ''nao'', u ''e'', u ''bom''] ! (2 - 1) \<notin> set clause_breaks
   \<and> contribution small_pt [u ''nao'', u ''e'', u ''bom''] 2 = Some (- 1)"
proof -
  have h1: "2 < length [u ''nao'', u ''e'', u ''bom'']" by simp
  have p: "term_polarity small_pt ([u ''nao'', u ''e'', u ''bom''] ! 2) = 1"
    by (simp add: term_polarity_def small_pt_defs)
  have h2: "term_polarity small_pt ([u ''nao'', u ''e'', u ''bom''] ! 2) \<noteq> 0"
    using p by simp
  have n: "[u ''nao'', u ''e'', u ''bom''] ! (2 - 2) \<in> set (negators small_pt)"
    "[u ''nao'', u ''e'', u ''bom''] ! (2 - 1) \<notin> set clause_breaks"
    by (simp_all add: small_pt_defs clause_breaks_def)
  have c: "contribution small_pt [u ''nao'', u ''e'', u ''bom''] 2 = Some (- 1)"
    using contribution_nao_e_bom(3) by (simp add: numeral_2_eq_2)
  from analyze_negation_window [OF h1 h2] h1 p n c show ?thesis by simp
qed

text \<open>
  C4: when \<^verbatim>\<open>analyze\<close> has at least one polarity hit, with \<open>avg = sum / hits\<close> (the sum
  and the quotient as the code computes them, in floating point) the label is
  \<^verbatim>\<open>positivo\<close> exactly when \<open>avg > 0.2\<close>, \<^verbatim>\<open>negativo\<close> exactly when \<open>avg < -0.2\<close>, and
  \<^verbatim>\<open>neutro\<close> exactly when neither holds; 0.2 is the float the literal denotes.
\<close>

theorem analyze_label_thresholds:
  assumes "score_loop_fp fl lx (tokenize U text) = (s, n)" and "0 < n" and "0 \<le> fl 0.2"
  shows "hits (analyze_fp fl U lx text tn) = n
     \<and> (label (analyze_fp fl U lx text tn) = ''positivo'' \<longleftrightarrow> fl (s / of_int n) > fl 0.2)
     \<and> (label (analyze_fp fl U lx text tn) = ''negativo''
          \<longleftrightarrow> fl (s / of_int n) < - fl 0.2)
     \<and> (label (analyze_fp fl U lx text tn) = ''neutro''
          \<longleftrightarrow> \<not> fl (s / of_int n) > fl 0.2 \<and> \<not> fl (s / of_int n) < - fl 0.2)"
proof -
  have n: "n \<noteq> 0" using assms(2) by simp
  have l: "(label_of_fp fl avg = ''positivo'' \<longleftrightarrow> avg > fl 0.2)
      \<and> (label_of_fp fl avg = ''negativo'' \<longleftrightarrow> avg < - fl 0.2)
      \<and> (label_of_fp fl avg = ''neutro'' \<longleftrightarrow> \<not> avg > fl 0.2 \<and> \<not> avg < - fl 0.2)" for avg
    using assms(3) by (auto simp: label_of_fp_def)
  show ?thesis
    using analyze_fp_hits [OF assms(1) n, of tn] l [of "fl (s / of_int n)"] by simp
qed

theorem analyze_label_thresholds_witness:
  "score_loop_fp fl64 (as_floats fl64 small_pt) (tokenize latin1 feliz_seboso)
     = (- (1801439850948199 / 2 ^ 52), 2)
   \<and> 0 \<le> fl64 0.2
   \<and> fl64 (- (1801439850948199 / 2 ^ 52) / 2) < - fl64 0.2
   \<and> label (analyze_fp fl64 latin1 (as_floats fl64 small_pt) feliz_seboso None) = ''negativo''
   \<and> score_loop_fp fl64 (as_floats fl64 small_pt) (tokenize latin1 ruim_super_bom)
     = (1801439850948199 / 2 ^ 52, 2)
   \<and> fl64 (1801439850948199 / 2 ^ 52 / 2) > fl64 0.2
   \<and> label (analyze_fp fl64 latin1 (as_floats fl64 small_pt) ruim_super_bom None)
       = ''positivo''"
proof -
  have a: "score_loop_fp fl64 (as_floats fl64 small_pt) (tokenize latin1 feliz_seboso)
      = (- (1801439850948199 / 2 ^ 52), 2)"
    by (simp add: tokenize_feliz_seboso score_loop_feliz_seboso)
  have b: "score_loop_fp fl64 (as_floats fl64 small_pt) (tokenize latin1 ruim_super_bom)
      = (1801439850948199 / 2 ^ 52, 2)"
    by (simp add: tokenize_ruim_super_bom score_loop_ruim_super_bom)
  have two: "(0::int) < 2" by simp
  have z: "0 \<le> fl64 0.2" by (simp add: fl64_values)
  have lt: "fl64 (- (1801439850948199 / 2 ^ 52) / 2) < - fl64 0.2"
    by (simp add: fl64_values)
  have gt: "fl64 (1801439850948199 / 2 ^ 52 / 2) > fl64 0.2"
    by (simp add: fl64_values)
  have a': "label (analyze_fp fl64 latin1 (as_floats fl64 small_pt) feliz_seboso None)
      = ''negativo''"
    using analyze_label_thresholds [OF a two z, of None] lt by simp
  have b': "label (analyze_fp fl64 latin1 (as_floats fl64 small_pt) ruim_super_bom None)
      = ''positivo''"
    using analyze_label_thresholds [OF b two z, of None] gt by simp
  from a b z lt gt a' b' show ?thesis by simp
qed

text \<open>
  C9: for a text whose analysis has \<open>hits > 0\<close>, the confidence \<^verbatim>\<open>analyze\<close> returns for
  target names that include one whose surname (the last part of its normalized form) is
  a token of the text, so that \<open>mentioned\<close> is true, is at least the confidence it
  returns for the same text with any other target names, in particular without that
  target: the bonus of 0.15, capped at 1.0, never lowers the confidence.
\<close>

theorem analyze_mention_monotone:
  assumes "0 < hits (analyze U lx text tn)"
    and "n \<in> set names" and "n \<noteq> []"
    and "filter (\<lambda>p. p \<noteq> []) (split_on 32 [] (normalize U n)) \<noteq> []"
    and "last (filter (\<lambda>p. p \<noteq> []) (split_on 32 [] (normalize U n)))
           \<in> set (tokenize U text)"
  shows "mentioned (analyze U lx text (Some names))
     \<and> confidence (analyze U lx text tn) \<le> confidence (analyze U lx text (Some names))"
proof -
  obtain s k where sl: "score_loop lx (tokenize U text) = (s, k)"
    by (cases "score_loop lx (tokenize U text)")
  have k: "k \<noteq> 0"
    using analyze_hits_pos [OF assms(1)] sl by simp
  have m: "is_mentioned U (tokenize U text) (Some names)"
    using assms(2-5) by (rule surname_mentioned)
  define conf where "conf = min 1 (0.5 + min 0.5 \<bar>s / of_int k\<bar>)"
  have c1le: "conf \<le> 1"
    by (simp add: conf_def)
  have le: "(if is_mentioned U (tokenize U text) tn then min 1 (conf + 0.15) else conf)
      \<le> min 1 (conf + 0.15)"
    using c1le by auto
  have c1: "confidence (analyze U lx text tn) =
      py_round (if is_mentioned U (tokenize U text) tn then min 1 (conf + 0.15) else conf) 3"
    unfolding analyze_hits [OF sl k] conf_def by simp
  have c2: "confidence (analyze U lx text (Some names)) = py_round (min 1 (conf + 0.15)) 3"
    unfolding analyze_hits [OF sl k] conf_def using m by simp
  have m2: "mentioned (analyze U lx text (Some names))"
    unfolding analyze_hits [OF sl k] using m by simp
  show ?thesis
    unfolding c1 c2 using m2 py_round_mono [OF le] by simp
qed

theorem analyze_mention_monotone_witness:
  "0 < hits (analyze latin1 small_pt silva_text None)
   \<and> last (filter (\<lambda>p. p \<noteq> []) (split_on 32 [] (normalize latin1 joao_silva)))
        \<in> set (tokenize latin1 silva_text)
   \<and> mentioned (analyze latin1 small_pt silva_text (Some [joao_silva]))
   \<and> confidence (analyze latin1 small_pt silva_text None) = 0.6
   \<and> confidence (analyze latin1 small_pt silva_text (Some [joao_silva])) = 0.75"
proof -
  have sl: "score_loop small_pt (tokenize latin1 silva_text) = (- 0.2, 2)"
    by (simp add: tokenize_silva score_loop_silva)
  have two: "(2::int) \<noteq> 0" by simp
  have nm: "\<not> is_mentioned latin1 (tokenize latin1 silva_text) None"
    by (simp add: is_mentioned_def)
  have a0: "analyze latin1 small_pt silva_text None =
      \<lparr>label = ''neutro'', score = - 0.1, confidence = 0.6, hits = 2, mentioned = False\<rparr>"
    unfolding analyze_hits [OF sl two]
    using nm by (simp add: label_of_def py_round_def Let_def)
  have h1: "0 < hits (analyze latin1 small_pt silva_text None)"
    by (simp add: a0)
  have h2: "joao_silva \<in> set [joao_silva]" by simp
  have h3: "joao_silva \<noteq> []" by (simp add: joao_silva_def)
  have h4: "filter (\<lambda>p. p \<noteq> []) (split_on 32 [] (normalize latin1 joao_silva)) \<noteq> []"
    by (simp add: normalize_joao_silva parts_joao_silva)
  have h5: "last (filter (\<lambda>p. p \<noteq> []) (split_on 32 [] (normalize latin1 joao_silva)))
      \<in> set (tokenize latin1 silva_text)"
    by (simp add: normalize_joao_silva parts_joao_silva tokenize_silva)
  have m: "is_mentioned latin1 (tokenize latin1 silva_text) (Some [joao_silva])"
    using h2 h3 h4 h5 by (rule surname_mentioned)
  have c: "confidence (analyze latin1 small_pt silva_text (Some [joao_silva])) = 0.75"
    unfolding analyze_hits [OF sl two]
    using m by (simp add: py_round_def Let_def)
  from analyze_mention_monotone [OF h1 h2 h3 h4 h5] h1 h5 c show ?thesis
    by (simp add: a0)
qed

end
